theory Spec2Isabelle
  imports Main "HOL-Library.AList" "HOL-Library.Word"
begin

section \<open>Python values, exceptions and the outside world\<close>

text \<open>
  The values that travel through the client: keyword arguments, JSON payloads and parsed
  JSON bodies. A Python \<open>int\<close> is unbounded, a \<open>float\<close> is an IEEE double (its 64 bits),
  a \<open>dict\<close> with string keys is an association list in insertion order.
\<close>

datatype pyval =
    PNone
  | PBool bool
  | PInt int
  | PFloat "64 word"
  | PStr string
  | PList "pyval list"
  | PDict "(string \<times> pyval) list"

type_synonym kwargs = "(string \<times> pyval) list"

text \<open>The exceptions the code can raise. The module defines no exception class of its own.\<close>

datatype transport_exc = ConnectionError | Timeout | OtherRequestException

datatype pyexc =
    FileNotFoundError
  | JSONDecodeError
  | KeyError string
  | TypeError
  | AssertionError
  | RequestException transport_exc

text \<open>What \<open>requests.request(method, url, headers=, json=, params=)\<close> is called with.\<close>

record request =
  rq_method :: string
  rq_url :: string
  rq_headers :: "(string \<times> pyval) list"
  rq_json :: pyval
  rq_params :: kwargs

text \<open>A \<open>requests.models.Response\<close>: the code reads \<open>r.text\<close> only.\<close>

record response =
  status_code :: int
  resp_text :: string

text \<open>
  The world outside the module at the time of one call: the file system (\<open>None\<close>: no such
  file), the library function \<open>json.loads\<close> (\<open>None\<close>: the text is not JSON) and the
  transport behind \<open>requests.request\<close> (\<open>Inl\<close>: the transport raised).
\<close>

record env =
  read_file :: "string \<Rightarrow> string option"
  json_loads :: "string \<Rightarrow> pyval option"
  requests_request :: "request \<Rightarrow> transport_exc + response"

section \<open>The class RegFoxAPI and its instances\<close>

text \<open>
  \<open>headers\<close>, \<open>last_request\<close> and \<open>last_request_json\<close> are attributes of the class object.
  An instance has a dictionary of its own, empty when the object is created; an
  assignment \<open>self.a = v\<close> writes there, while \<open>self.headers['apiKey'] = v\<close> reads the
  attribute (found on the class) and mutates that one dictionary in place.
\<close>

record inst =
  own_last_request :: "response option"
  own_last_request_json :: "pyval option"

record pystate =
  headers :: "(string \<times> pyval) list"
  last_request :: "response option"
  last_request_json :: pyval
  objs :: "nat \<Rightarrow> inst"
  next_obj :: nat
  sent :: "request list"
  stderr :: "string list"

type_synonym 'a result = "(pyexc + 'a) \<times> pystate"

definition new_instance :: inst where
  "new_instance = \<lparr>own_last_request = None, own_last_request_json = None\<rparr>"

definition initial :: pystate where
  "initial = \<lparr>headers = [(''apiKey'', PStr '''')], last_request = None,
     last_request_json = PDict [], objs = (\<lambda>_. new_instance), next_obj = 0,
     sent = [], stderr = []\<rparr>"

definition url_base :: string where
  "url_base = ''https://api.webconnex.com/v2/public''"

definition endpoints :: "(string \<times> string) list" where
  "endpoints =
    [(''ping'', ''/ping''),
     (''search_orders'', ''/search/orders''),
     (''search_registrants'', ''/search/registrants''),
     (''registrant_checkin'', ''/registrant/check-in''),
     (''registrant_checkout'', ''/registrant/check-out''),
     (''search_transactions'', ''/search/transactions''),
     (''search_customers'', ''/search/customers''),
     (''list_global_coupons'', ''/coupons/global''),
     (''list_form_coupons'', ''/coupons/forms''),
     (''coupons'', ''/coupons''),
     (''forms'', ''/forms'')]"

definition default_api_path :: string where
  "default_api_path = ''config.json''"

text \<open>\<open>self.endpoints[k]\<close>\<close>

definition endpoint :: "string \<Rightarrow> pyexc + string" where
  "endpoint k = (case map_of endpoints k of None \<Rightarrow> Inl (KeyError k) | Some p \<Rightarrow> Inr p)"

text \<open>\<open>config[k]\<close> for a string \<open>k\<close>: only a dict can be subscripted with a string.\<close>

fun getitem :: "pyval \<Rightarrow> string \<Rightarrow> pyexc + pyval" where
  "getitem (PDict d) k = (case map_of d k of None \<Rightarrow> Inl (KeyError k) | Some v \<Rightarrow> Inr v)"
| "getitem _ k = Inl TypeError"

text \<open>Attribute access through \<open>self\<close>: the instance dictionary first, then the class.\<close>

definition get_last_request :: "nat \<Rightarrow> pystate \<Rightarrow> response option" where
  "get_last_request self s =
     (case own_last_request (objs s self) of Some r \<Rightarrow> Some r | None \<Rightarrow> last_request s)"

definition get_last_request_json :: "nat \<Rightarrow> pystate \<Rightarrow> pyval" where
  "get_last_request_json self s =
     (case own_last_request_json (objs s self) of Some v \<Rightarrow> v | None \<Rightarrow> last_request_json s)"

definition set_last_request :: "nat \<Rightarrow> response \<Rightarrow> pystate \<Rightarrow> pystate" where
  "set_last_request self r s =
     s\<lparr>objs := (objs s)(self := (objs s self)\<lparr>own_last_request := Some r\<rparr>)\<rparr>"

definition set_last_request_json :: "nat \<Rightarrow> pyval \<Rightarrow> pystate \<Rightarrow> pystate" where
  "set_last_request_json self v s =
     s\<lparr>objs := (objs s)(self := (objs s self)\<lparr>own_last_request_json := Some v\<rparr>)\<rparr>"

subsection \<open>Initialisation\<close>

definition load_api :: "env \<Rightarrow> nat \<Rightarrow> pystate \<Rightarrow> unit result" where
  "load_api e self s =
     (case read_file e default_api_path of
        None \<Rightarrow> (Inl FileNotFoundError, s)
      | Some content \<Rightarrow>
          (case json_loads e content of
             None \<Rightarrow> (Inl JSONDecodeError, s)
           | Some config \<Rightarrow>
               (case getitem config ''api_key'' of
                  Inl x \<Rightarrow> (Inl x, s)
                | Inr key \<Rightarrow> (Inr (), s\<lparr>headers := AList.update ''apiKey'' key (headers s)\<rparr>))))"

text \<open>\<open>RegFoxAPI()\<close>: a fresh object, then \<open>__init__\<close>, which calls \<open>__load_api\<close>.\<close>

definition RegFoxAPI_init :: "env \<Rightarrow> pystate \<Rightarrow> nat result" where
  "RegFoxAPI_init e s =
     (let self = next_obj s;
          s1 = s\<lparr>objs := (objs s)(self := new_instance), next_obj := Suc self\<rparr>
      in case load_api e self s1 of
           (Inl x, s2) \<Rightarrow> (Inl x, s2)
         | (Inr u, s2) \<Rightarrow> (Inr self, s2))"

subsection \<open>The generic request\<close>

definition api_request ::
  "env \<Rightarrow> nat \<Rightarrow> string \<Rightarrow> string \<Rightarrow> pyval \<Rightarrow> kwargs \<Rightarrow> pystate \<Rightarrow> response result" where
  "api_request e self method url payload kw s =
     (let rq = \<lparr>rq_method = method, rq_url = url, rq_headers = headers s,
                rq_json = payload, rq_params = kw\<rparr>;
          s1 = s\<lparr>sent := sent s @ [rq]\<rparr>
      in case requests_request e rq of
           Inl t \<Rightarrow> (Inl (RequestException t), s1)
         | Inr r \<Rightarrow>
             (let s2 = set_last_request self r s1
              in case json_loads e (resp_text r) of
                   None \<Rightarrow> (Inl JSONDecodeError, s2)
                 | Some j \<Rightarrow> (Inr r, set_last_request_json self j s2)))"

text \<open>
  A call \<open>f(a, b, **kwargs)\<close> raises TypeError when a key of \<open>kwargs\<close> names a parameter
  that is already bound.
\<close>

fun clash :: "string list \<Rightarrow> kwargs \<Rightarrow> bool" where
  "clash names [] = False"
| "clash names ((k, v) # kw) = (k \<in> set names \<or> clash names kw)"

text \<open>
  \<open>__api_request(self, method, url, payload=None, **kwargs)\<close> called with \<open>**kwargs\<close>: a
  key \<open>payload\<close> binds the parameter of that name, the other keys are the query parameters.
\<close>

definition payload_of :: "kwargs \<Rightarrow> pyval" where
  "payload_of kw = (case map_of kw ''payload'' of None \<Rightarrow> PNone | Some v \<Rightarrow> v)"

definition api_get :: "env \<Rightarrow> nat \<Rightarrow> string \<Rightarrow> kwargs \<Rightarrow> pystate \<Rightarrow> pyval result" where
  "api_get e self ep kw s =
     (let url = url_base @ ep
      in if clash [''self'', ''method'', ''url''] kw then (Inl TypeError, s)
         else case api_request e self ''GET'' url (payload_of kw)
                     (AList.delete ''payload'' kw) s of
                (Inl x, s1) \<Rightarrow> (Inl x, s1)
              | (Inr r, s1) \<Rightarrow> (Inr (get_last_request_json self s1), s1))"

definition api_post ::
  "env \<Rightarrow> nat \<Rightarrow> string \<Rightarrow> pyval \<Rightarrow> kwargs \<Rightarrow> pystate \<Rightarrow> pyval result" where
  "api_post e self ep payload kw s =
     (let url = url_base @ ep
      in if clash [''self'', ''method'', ''url'', ''payload''] kw then (Inl TypeError, s)
         else case api_request e self ''POST'' url payload kw s of
                (Inl x, s1) \<Rightarrow> (Inl x, s1)
              | (Inr r, s1) \<Rightarrow> (Inr (get_last_request_json self s1), s1))"

subsection \<open>Check-in and check-out\<close>

text \<open>\<open>type(v) is int\<close>: a bool is not an int here.\<close>

fun is_int :: "pyval \<Rightarrow> bool" where
  "is_int (PInt n) = True"
| "is_int _ = False"

definition registrant_checkin :: "env \<Rightarrow> nat \<Rightarrow> pyval \<Rightarrow> pyval \<Rightarrow> pystate \<Rightarrow> pyval result" where
  "registrant_checkin e self reg_number reg_id s =
     (if \<not> is_int reg_number then (Inl AssertionError, s)
      else let payload = PDict [(''id'', reg_number)]
           in case endpoint ''registrant_checkin'' of
                Inl x \<Rightarrow> (Inl x, s)
              | Inr ep \<Rightarrow> api_post e self ep payload [] s)"

definition checkout_warning :: string where
  "checkout_warning = ''WARNING: checkout() is broken as of last test run''"

definition registrant_checkout :: "env \<Rightarrow> nat \<Rightarrow> pyval \<Rightarrow> pyval \<Rightarrow> pystate \<Rightarrow> pyval result" where
  "registrant_checkout e self reg_number reg_id s =
     (if \<not> is_int reg_number then (Inl AssertionError, s)
      else let payload = PDict [(''id'', reg_number)];
               s1 = s\<lparr>stderr := stderr s @ [checkout_warning]\<rparr>
           in case endpoint ''registrant_checkout'' of
                Inl x \<Rightarrow> (Inl x, s1)
              | Inr ep \<Rightarrow> api_post e self ep payload [] s1)"

subsection \<open>Formatting an identifier into a path\<close>

text \<open>
  The lookup methods put their argument into the path with an f-string. The annotations
  give these arguments as \<open>int\<close> or \<open>str\<close>: an int is formatted in decimal, a str is
  itself.
\<close>

datatype scalar = SInt int | SStr string

function str_nat :: "nat \<Rightarrow> string" where
  "str_nat n =
     (if n < 10 then [''0123456789'' ! n]
      else str_nat (n div 10) @ [''0123456789'' ! (n mod 10)])"
  by pat_completeness auto
termination
  by (relation "measure (\<lambda>n. n)") auto

definition str_int :: "int \<Rightarrow> string" where
  "str_int i = (if i < 0 then CHR ''-'' # str_nat (nat (- i)) else str_nat (nat i))"

fun format_scalar :: "scalar \<Rightarrow> string" where
  "format_scalar (SInt i) = str_int i"
| "format_scalar (SStr x) = x"

fun scalar_val :: "scalar \<Rightarrow> pyval" where
  "scalar_val (SInt i) = PInt i"
| "scalar_val (SStr x) = PStr x"

subsection \<open>The named methods\<close>

text \<open>
  \<open>self.api_get(path, **kwargs)\<close> from a method that forwards its keyword arguments:
  a key \<open>self\<close> or \<open>endpoint\<close> clashes with the parameters of \<open>api_get\<close>.
\<close>

definition forward_get :: "env \<Rightarrow> nat \<Rightarrow> string \<Rightarrow> kwargs \<Rightarrow> pystate \<Rightarrow> pyval result" where
  "forward_get e self key kw s =
     (case endpoint key of
        Inl x \<Rightarrow> (Inl x, s)
      | Inr ep \<Rightarrow>
          if clash [''self'', ''endpoint''] kw then (Inl TypeError, s)
          else api_get e self ep kw s)"

text \<open>\<open>self.api_get(f"{self.endpoints[key]}/{ident}{suffix}")\<close>\<close>

definition lookup_get ::
  "env \<Rightarrow> nat \<Rightarrow> string \<Rightarrow> scalar \<Rightarrow> string \<Rightarrow> pystate \<Rightarrow> pyval result" where
  "lookup_get e self key ident suffix s =
     (case endpoint key of
        Inl x \<Rightarrow> (Inl x, s)
      | Inr ep \<Rightarrow> api_get e self (ep @ ''/'' @ format_scalar ident @ suffix) [] s)"

definition ping :: "env \<Rightarrow> nat \<Rightarrow> pystate \<Rightarrow> pyval result" where
  "ping e self s =
     (case endpoint ''ping'' of Inl x \<Rightarrow> (Inl x, s) | Inr ep \<Rightarrow> api_get e self ep [] s)"

definition search_orders :: "env \<Rightarrow> nat \<Rightarrow> kwargs \<Rightarrow> pystate \<Rightarrow> pyval result" where
  "search_orders e self kw s = forward_get e self ''search_orders'' kw s"

definition list_orders :: "env \<Rightarrow> nat \<Rightarrow> pyval \<Rightarrow> pystate \<Rightarrow> pyval result" where
  "list_orders e self form_id s = search_orders e self [(''form_id'', form_id)] s"

definition search_orders_id :: "env \<Rightarrow> nat \<Rightarrow> scalar \<Rightarrow> pystate \<Rightarrow> pyval result" where
  "search_orders_id e self order_id s = lookup_get e self ''search_orders'' order_id [] s"

definition search_orders_number :: "env \<Rightarrow> nat \<Rightarrow> pyval \<Rightarrow> pystate \<Rightarrow> pyval result" where
  "search_orders_number e self order_number s =
     search_orders e self [(''orderNumber'', order_number)] s"

definition search_registrants :: "env \<Rightarrow> nat \<Rightarrow> kwargs \<Rightarrow> pystate \<Rightarrow> pyval result" where
  "search_registrants e self kw s = forward_get e self ''search_registrants'' kw s"

definition list_registrants :: "env \<Rightarrow> nat \<Rightarrow> pyval \<Rightarrow> pystate \<Rightarrow> pyval result" where
  "list_registrants e self form_id s = search_registrants e self [(''form_id'', form_id)] s"

definition search_registrants_number :: "env \<Rightarrow> nat \<Rightarrow> scalar \<Rightarrow> pystate \<Rightarrow> pyval result" where
  "search_registrants_number e self reg_number s =
     lookup_get e self ''search_registrants'' reg_number [] s"

definition search_transactions :: "env \<Rightarrow> nat \<Rightarrow> kwargs \<Rightarrow> pystate \<Rightarrow> pyval result" where
  "search_transactions e self kw s = forward_get e self ''search_transactions'' kw s"

definition list_transactions :: "env \<Rightarrow> nat \<Rightarrow> pyval \<Rightarrow> pystate \<Rightarrow> pyval result" where
  "list_transactions e self form_id s = search_transactions e self [(''formId'', form_id)] s"

definition search_transactions_order_id ::
  "env \<Rightarrow> nat \<Rightarrow> pyval \<Rightarrow> pystate \<Rightarrow> pyval result" where
  "search_transactions_order_id e self order_id s =
     search_transactions e self [(''orderId'', order_id)] s"

definition search_transactions_order_number ::
  "env \<Rightarrow> nat \<Rightarrow> pyval \<Rightarrow> pystate \<Rightarrow> pyval result" where
  "search_transactions_order_number e self order_number s =
     search_transactions e self [(''orderNumber'', order_number)] s"

definition search_transactions_customer_id ::
  "env \<Rightarrow> nat \<Rightarrow> pyval \<Rightarrow> pystate \<Rightarrow> pyval result" where
  "search_transactions_customer_id e self customer_id s =
     search_transactions e self [(''customerId'', customer_id)] s"

definition search_customers :: "env \<Rightarrow> nat \<Rightarrow> kwargs \<Rightarrow> pystate \<Rightarrow> pyval result" where
  "search_customers e self kw s = forward_get e self ''search_customers'' kw s"

definition list_customers :: "env \<Rightarrow> nat \<Rightarrow> pyval \<Rightarrow> pystate \<Rightarrow> pyval result" where
  "list_customers e self form_id s = search_customers e self [(''formId'', form_id)] s"

definition search_customers_id :: "env \<Rightarrow> nat \<Rightarrow> scalar \<Rightarrow> pystate \<Rightarrow> pyval result" where
  "search_customers_id e self customer_id s =
     lookup_get e self ''search_customers'' customer_id [] s"

definition search_customers_email :: "env \<Rightarrow> nat \<Rightarrow> pyval \<Rightarrow> pystate \<Rightarrow> pyval result" where
  "search_customers_email e self email s = search_customers e self [(''email'', email)] s"

definition list_forms :: "env \<Rightarrow> nat \<Rightarrow> pystate \<Rightarrow> pyval result" where
  "list_forms e self s =
     (case endpoint ''forms'' of Inl x \<Rightarrow> (Inl x, s) | Inr ep \<Rightarrow> api_get e self ep [] s)"

definition search_forms_id :: "env \<Rightarrow> nat \<Rightarrow> scalar \<Rightarrow> pystate \<Rightarrow> pyval result" where
  "search_forms_id e self form_id s = lookup_get e self ''forms'' form_id [] s"

definition list_global_coupons :: "env \<Rightarrow> nat \<Rightarrow> kwargs \<Rightarrow> pystate \<Rightarrow> pyval result" where
  "list_global_coupons e self kw s = forward_get e self ''list_global_coupons'' kw s"

definition list_form_coupons :: "env \<Rightarrow> nat \<Rightarrow> scalar \<Rightarrow> pystate \<Rightarrow> pyval result" where
  "list_form_coupons e self form_id s = lookup_get e self ''list_form_coupons'' form_id [] s"

definition search_coupons :: "env \<Rightarrow> nat \<Rightarrow> scalar \<Rightarrow> pystate \<Rightarrow> pyval result" where
  "search_coupons e self coupon_id s = lookup_get e self ''coupons'' coupon_id [] s"

definition search_inventory :: "env \<Rightarrow> nat \<Rightarrow> scalar \<Rightarrow> pystate \<Rightarrow> pyval result" where
  "search_inventory e self form_id s = lookup_get e self ''forms'' form_id ''/inventory'' s"

definition search_tickets :: "env \<Rightarrow> nat \<Rightarrow> pystate \<Rightarrow> pyval result" where
  "search_tickets e self s = api_get e self ''/search/tickets'' [] s"

definition search_subscriptions :: "env \<Rightarrow> nat \<Rightarrow> pystate \<Rightarrow> pyval result" where
  "search_subscriptions e self s = api_get e self ''/search/subscriptions'' [] s"

definition search_memberships :: "env \<Rightarrow> nat \<Rightarrow> pystate \<Rightarrow> pyval result" where
  "search_memberships e self s = api_get e self ''/search/memberships'' [] s"

subsection \<open>Sample worlds\<close>

text \<open>
  A configuration file holding the key \<open>k3y\<close>, a JSON reader that knows the four texts
  used below, and a service that answers \<open>/registrant/check-out\<close> with the conflict the
  docstring of \<open>registrant_checkout\<close> quotes and every other path with a small object.
\<close>

definition config_text :: string where
  \<open>config_text = ''{"api_key": "k3y"}''\<close>

definition conflict_text :: string where
  \<open>conflict_text =
     ''{"responseCode":500,"error":{"code":8500,"description":"all ready checked in"}}''\<close>

definition conflict_json :: pyval where
  "conflict_json =
     PDict [(''responseCode'', PInt 500),
            (''error'', PDict [(''code'', PInt 8500),
                               (''description'', PStr ''all ready checked in'')])]"

definition ok_text :: string where
  \<open>ok_text = ''{"responseCode":200}''\<close>

definition ok_json :: pyval where
  "ok_json = PDict [(''responseCode'', PInt 200)]"

definition sample_loads :: "string \<Rightarrow> pyval option" where
  \<open>sample_loads t =
     (if t = config_text then Some (PDict [(''api_key'', PStr ''k3y'')])
      else if t = conflict_text then Some conflict_json
      else if t = ok_text then Some ok_json
      else if t = ''{}'' then Some (PDict [])
      else None)\<close>

definition sample_service :: "request \<Rightarrow> transport_exc + response" where
  "sample_service rq =
     (if rq_url rq = url_base @ ''/registrant/check-out''
      then Inr \<lparr>status_code = 500, resp_text = conflict_text\<rparr>
      else Inr \<lparr>status_code = 200, resp_text = ok_text\<rparr>)"

definition sample_env :: env where
  "sample_env =
     \<lparr>read_file = (\<lambda>p. if p = ''config.json'' then Some config_text else None),
      json_loads = sample_loads,
      requests_request = sample_service\<rparr>"

text \<open>No configuration file.\<close>

definition env_missing :: env where
  "env_missing = sample_env\<lparr>read_file := (\<lambda>p. None)\<rparr>"

text \<open>A configuration file that is not JSON.\<close>

definition env_malformed :: env where
  "env_malformed = sample_env\<lparr>read_file := (\<lambda>p. Some ''api_key = k3y'')\<rparr>"

text \<open>A configuration file that is a JSON object without the field \<open>api_key\<close>.\<close>

definition env_nokey :: env where
  "env_nokey = sample_env\<lparr>read_file := (\<lambda>p. Some ''{}'')\<rparr>"

text \<open>The network is unreachable.\<close>

definition env_offline :: env where
  "env_offline = sample_env\<lparr>requests_request := (\<lambda>rq. Inl ConnectionError)\<rparr>"

text \<open>The service answers with a page that is not JSON.\<close>

definition env_html :: env where
  "env_html = sample_env\<lparr>requests_request :=
     (\<lambda>rq. Inr \<lparr>status_code = 502, resp_text = ''<html>Bad Gateway</html>''\<rparr>)\<rparr>"

text \<open>The configuration file has been rewritten with another key.\<close>

definition other_config_text :: string where
  \<open>other_config_text = ''{"api_key": "other"}''\<close>

definition env_other :: env where
  "env_other =
     sample_env\<lparr>read_file := (\<lambda>p. if p = ''config.json'' then Some other_config_text else None),
       json_loads := (\<lambda>t. if t = other_config_text then Some (PDict [(''api_key'', PStr ''other'')])
                           else sample_loads t)\<rparr>"

text \<open>The state after \<open>regfox = RegFoxAPI()\<close> in the sample world: object 0 is the client.\<close>

definition client_state :: pystate where
  "client_state = snd (RegFoxAPI_init sample_env initial)"

text \<open>A second client, object 1, created in the same world.\<close>

definition two_clients :: pystate where
  "two_clients = snd (RegFoxAPI_init sample_env client_state)"

subsection \<open>Observing a call\<close>

text \<open>The method and URL of the requests that a call has added to the log.\<close>

definition issued :: "pystate \<Rightarrow> 'a result \<Rightarrow> (string \<times> string) list" where
  "issued s res = map (\<lambda>rq. (rq_method rq, rq_url rq)) (drop (length (sent s)) (sent (snd res)))"

text \<open>The keyword names that a forwarded call to \<open>api_get\<close> cannot carry.\<close>

definition reserved :: "string list" where
  "reserved = [''self'', ''endpoint'', ''method'', ''url'']"

section \<open>Basic facts\<close>

lemma endpoint_simps:
  "endpoint ''ping'' = Inr ''/ping''"
  "endpoint ''search_orders'' = Inr ''/search/orders''"
  "endpoint ''search_registrants'' = Inr ''/search/registrants''"
  "endpoint ''registrant_checkin'' = Inr ''/registrant/check-in''"
  "endpoint ''registrant_checkout'' = Inr ''/registrant/check-out''"
  "endpoint ''search_transactions'' = Inr ''/search/transactions''"
  "endpoint ''search_customers'' = Inr ''/search/customers''"
  "endpoint ''list_global_coupons'' = Inr ''/coupons/global''"
  "endpoint ''list_form_coupons'' = Inr ''/coupons/forms''"
  "endpoint ''coupons'' = Inr ''/coupons''"
  "endpoint ''forms'' = Inr ''/forms''"
  by (simp_all add: endpoint_def endpoints_def)

lemma client_state_eq:
  "client_state = initial\<lparr>objs := (objs initial)(0 := new_instance), next_obj := Suc 0,
      headers := [(''apiKey'', PStr ''k3y'')]\<rparr>"
  by (simp add: client_state_def RegFoxAPI_init_def load_api_def sample_env_def
      default_api_path_def initial_def sample_loads_def config_text_def Let_def)

lemma client_state_simps:
  "headers client_state = [(''apiKey'', PStr ''k3y'')]"
  "sent client_state = []"
  "stderr client_state = []"
  "last_request_json client_state = PDict []"
  "last_request client_state = None"
  "objs client_state = (\<lambda>_. new_instance)"
  by (auto simp add: client_state_eq initial_def)

subsection \<open>The sample world, evaluated\<close>

lemma sample_loads_simps:
  "sample_loads ok_text = Some ok_json"
  "sample_loads conflict_text = Some conflict_json"
  "sample_loads config_text = Some (PDict [(''api_key'', PStr ''k3y'')])"
  "sample_loads ''{}'' = Some (PDict [])"
  "sample_loads ''api_key = k3y'' = None"
  "sample_loads ''<html>Bad Gateway</html>'' = None"
  by (simp_all add: sample_loads_def ok_text_def config_text_def conflict_text_def)



subsection \<open>Initialisation, case by case\<close>

lemma init_fst:
  "fst (RegFoxAPI_init e s) =
     (case read_file e default_api_path of
        None \<Rightarrow> Inl FileNotFoundError
      | Some t \<Rightarrow> (case json_loads e t of
          None \<Rightarrow> Inl JSONDecodeError
        | Some c \<Rightarrow> (case getitem c ''api_key'' of Inl x \<Rightarrow> Inl x | Inr k \<Rightarrow> Inr (next_obj s))))"
  by (simp add: RegFoxAPI_init_def load_api_def Let_def split: option.split sum.split)

lemma init_headers:
  "headers (snd (RegFoxAPI_init e s)) =
     (case read_file e default_api_path of
        None \<Rightarrow> headers s
      | Some t \<Rightarrow> (case json_loads e t of
          None \<Rightarrow> headers s
        | Some c \<Rightarrow> (case getitem c ''api_key'' of Inl x \<Rightarrow> headers s
             | Inr k \<Rightarrow> AList.update ''apiKey'' k (headers s))))"
  by (simp add: RegFoxAPI_init_def load_api_def Let_def split: option.split sum.split)

subsection \<open>The generic request, case by case\<close>

lemma api_request_sent:
  "sent (snd (api_request e self m u pl kw s)) =
     sent s @ [\<lparr>rq_method = m, rq_url = u, rq_headers = headers s, rq_json = pl, rq_params = kw\<rparr>]"
  by (simp add: api_request_def Let_def set_last_request_def set_last_request_json_def
      split: sum.split option.split)

lemma api_request_fail:
  "requests_request e \<lparr>rq_method = m, rq_url = u, rq_headers = headers s, rq_json = pl,
      rq_params = kw\<rparr> = Inl t \<Longrightarrow>
   fst (api_request e self m u pl kw s) = Inl (RequestException t)"
  by (simp add: api_request_def Let_def)

lemma api_request_bad:
  "requests_request e \<lparr>rq_method = m, rq_url = u, rq_headers = headers s, rq_json = pl,
      rq_params = kw\<rparr> = Inr r \<Longrightarrow>
   json_loads e (resp_text r) = None \<Longrightarrow>
   fst (api_request e self m u pl kw s) = Inl JSONDecodeError \<and>
   get_last_request self (snd (api_request e self m u pl kw s)) = Some r"
  by (simp add: api_request_def Let_def get_last_request_def set_last_request_def)

lemma api_request_ok:
  "requests_request e \<lparr>rq_method = m, rq_url = u, rq_headers = headers s, rq_json = pl,
      rq_params = kw\<rparr> = Inr r \<Longrightarrow>
   json_loads e (resp_text r) = Some j \<Longrightarrow>
   fst (api_request e self m u pl kw s) = Inr r \<and>
   get_last_request self (snd (api_request e self m u pl kw s)) = Some r \<and>
   get_last_request_json self (snd (api_request e self m u pl kw s)) = j"
  by (simp add: api_request_def Let_def get_last_request_def set_last_request_def
      get_last_request_json_def set_last_request_json_def)

lemma api_request_headers:
  "headers (snd (api_request e self m u pl kw s)) = headers s"
  by (simp add: api_request_def Let_def set_last_request_def set_last_request_json_def
      split: sum.split option.split)

lemma api_request_class_attrs:
  "last_request (snd (api_request e self m u pl kw s)) = last_request s \<and>
   last_request_json (snd (api_request e self m u pl kw s)) = last_request_json s"
  by (simp add: api_request_def Let_def set_last_request_def set_last_request_json_def
      split: sum.split option.split)

lemma api_request_other_obj:
  "b \<noteq> self \<Longrightarrow> objs (snd (api_request e self m u pl kw s)) b = objs s b"
  by (simp add: api_request_def Let_def set_last_request_def set_last_request_json_def
      split: sum.split option.split)

lemma api_request_stderr:
  "stderr (snd (api_request e self m u pl kw s)) = stderr s"
  by (simp add: api_request_def Let_def set_last_request_def set_last_request_json_def
      split: sum.split option.split)

subsection \<open>GET and POST in terms of the generic request\<close>

lemma api_get_clash:
  "clash [''self'', ''method'', ''url''] kw \<Longrightarrow> api_get e self ep kw s = (Inl TypeError, s)"
  by (simp add: api_get_def)

lemma api_post_clash:
  "clash [''self'', ''method'', ''url'', ''payload''] kw \<Longrightarrow>
   api_post e self ep pl kw s = (Inl TypeError, s)"
  by (simp add: api_post_def)

lemma api_get_snd:
  "\<not> clash [''self'', ''method'', ''url''] kw \<Longrightarrow>
   snd (api_get e self ep kw s) =
     snd (api_request e self ''GET'' (url_base @ ep) (payload_of kw) (AList.delete ''payload'' kw) s)"
  by (cases "api_request e self ''GET'' (url_base @ ep) (payload_of kw) (AList.delete ''payload'' kw) s")
     (auto simp: api_get_def split: sum.split)

lemma api_post_snd:
  "\<not> clash [''self'', ''method'', ''url'', ''payload''] kw \<Longrightarrow>
   snd (api_post e self ep pl kw s) = snd (api_request e self ''POST'' (url_base @ ep) pl kw s)"
  by (cases "api_request e self ''POST'' (url_base @ ep) pl kw s")
     (auto simp: api_post_def split: sum.split)

lemma api_get_fst:
  "\<not> clash [''self'', ''method'', ''url''] kw \<Longrightarrow>
   fst (api_get e self ep kw s) =
     (case fst (api_request e self ''GET'' (url_base @ ep) (payload_of kw)
                  (AList.delete ''payload'' kw) s) of
        Inl x \<Rightarrow> Inl x
      | Inr r \<Rightarrow> Inr (get_last_request_json self
          (snd (api_request e self ''GET'' (url_base @ ep) (payload_of kw)
                  (AList.delete ''payload'' kw) s))))"
  by (cases "api_request e self ''GET'' (url_base @ ep) (payload_of kw) (AList.delete ''payload'' kw) s")
     (auto simp: api_get_def split: sum.split)

lemma api_post_fst:
  "\<not> clash [''self'', ''method'', ''url'', ''payload''] kw \<Longrightarrow>
   fst (api_post e self ep pl kw s) =
     (case fst (api_request e self ''POST'' (url_base @ ep) pl kw s) of
        Inl x \<Rightarrow> Inl x
      | Inr r \<Rightarrow> Inr (get_last_request_json self
          (snd (api_request e self ''POST'' (url_base @ ep) pl kw s))))"
  by (cases "api_request e self ''POST'' (url_base @ ep) pl kw s")
     (auto simp: api_post_def split: sum.split)

lemma api_post_sent:
  "\<not> clash [''self'', ''method'', ''url'', ''payload''] kw \<Longrightarrow>
   sent (snd (api_post e self ep pl kw s)) =
     sent s @ [\<lparr>rq_method = ''POST'', rq_url = url_base @ ep, rq_headers = headers s,
                rq_json = pl, rq_params = kw\<rparr>]"
  by (simp add: api_post_snd api_request_sent)

lemma api_get_sent:
  "\<not> clash [''self'', ''method'', ''url''] kw \<Longrightarrow>
   sent (snd (api_get e self ep kw s)) =
     sent s @ [\<lparr>rq_method = ''GET'', rq_url = url_base @ ep, rq_headers = headers s,
                rq_json = payload_of kw, rq_params = AList.delete ''payload'' kw\<rparr>]"
  by (simp add: api_get_snd api_request_sent)

lemma api_get_headers:
  "headers (snd (api_get e self ep kw s)) = headers s"
  by (cases "clash [''self'', ''method'', ''url''] kw")
     (simp_all add: api_get_clash api_get_snd api_request_headers)

lemma api_post_headers:
  "headers (snd (api_post e self ep pl kw s)) = headers s"
  by (cases "clash [''self'', ''method'', ''url'', ''payload''] kw")
     (simp_all add: api_post_clash api_post_snd api_request_headers)

subsection \<open>Two clients\<close>

lemma two_clients_eq:
  "two_clients = client_state\<lparr>objs := (objs client_state)(Suc 0 := new_instance), next_obj := Suc (Suc 0)\<rparr>"
  by (simp add: two_clients_def RegFoxAPI_init_def load_api_def Let_def sample_env_def
      default_api_path_def sample_loads_simps client_state_eq initial_def)

lemma two_clients_simps:
  "headers two_clients = [(''apiKey'', PStr ''k3y'')]"
  "sent two_clients = []"
  "last_request_json two_clients = PDict []"
  "last_request two_clients = None"
  "objs two_clients = (\<lambda>_. new_instance)"
  by (auto simp add: two_clients_eq client_state_simps)

lemma api_get_other_obj:
  "b \<noteq> self \<Longrightarrow> objs (snd (api_get e self ep kw s)) b = objs s b"
  by (cases "clash [''self'', ''method'', ''url''] kw")
     (simp_all add: api_get_clash api_get_snd api_request_other_obj)

lemma api_post_other_obj:
  "b \<noteq> self \<Longrightarrow> objs (snd (api_post e self ep pl kw s)) b = objs s b"
  by (cases "clash [''self'', ''method'', ''url'', ''payload''] kw")
     (simp_all add: api_post_clash api_post_snd api_request_other_obj)

lemma api_get_class_attrs:
  "last_request (snd (api_get e self ep kw s)) = last_request s \<and>
   last_request_json (snd (api_get e self ep kw s)) = last_request_json s"
  by (cases "clash [''self'', ''method'', ''url''] kw")
     (simp_all add: api_get_clash api_get_snd api_request_class_attrs)

lemma api_post_class_attrs:
  "last_request (snd (api_post e self ep pl kw s)) = last_request s \<and>
   last_request_json (snd (api_post e self ep pl kw s)) = last_request_json s"
  by (cases "clash [''self'', ''method'', ''url'', ''payload''] kw")
     (simp_all add: api_post_clash api_post_snd api_request_class_attrs)

subsection \<open>The requests of the named methods\<close>

lemma clash_reserved:
  "clash reserved kw =
    (clash [''self'', ''endpoint''] kw \<or> clash [''self'', ''method'', ''url''] kw)"
  by (induction kw) (auto simp: reserved_def)

lemma issued_api_get:
  "\<not> clash [''self'', ''method'', ''url''] kw \<Longrightarrow>
   issued s (api_get e self ep kw s) = [(''GET'', url_base @ ep)]"
  by (simp add: issued_def api_get_sent)

lemma issued_api_post:
  "\<not> clash [''self'', ''method'', ''url'', ''payload''] kw \<Longrightarrow>
   issued s (api_post e self ep pl kw s) = [(''POST'', url_base @ ep)]"
  by (simp add: issued_def api_post_sent)

lemma issued_forward_get:
  "\<not> clash reserved kw \<Longrightarrow> endpoint key = Inr ep \<Longrightarrow>
   issued s (forward_get e self key kw s) = [(''GET'', url_base @ ep)]"
  by (simp add: forward_get_def clash_reserved issued_api_get)

lemma issued_lookup_get:
  "endpoint key = Inr ep \<Longrightarrow>
   issued s (lookup_get e self key i suffix s) =
     [(''GET'', url_base @ ep @ ''/'' @ format_scalar i @ suffix)]"
  by (simp add: lookup_get_def issued_api_get)

lemma paths_plain:
  "issued s (ping e self s) = [(''GET'', url_base @ ''/ping'')]"
  "issued s (list_forms e self s) = [(''GET'', url_base @ ''/forms'')]"
  "issued s (search_tickets e self s) = [(''GET'', url_base @ ''/search/tickets'')]"
  "issued s (search_subscriptions e self s) = [(''GET'', url_base @ ''/search/subscriptions'')]"
  "issued s (search_memberships e self s) = [(''GET'', url_base @ ''/search/memberships'')]"
  by (simp_all add: ping_def list_forms_def search_tickets_def search_subscriptions_def
      search_memberships_def endpoint_simps issued_api_get)

lemma paths_search:
  assumes "\<not> clash reserved kw"
  shows "issued s (search_orders e self kw s) = [(''GET'', url_base @ ''/search/orders'')]"
    and "issued s (search_registrants e self kw s) = [(''GET'', url_base @ ''/search/registrants'')]"
    and "issued s (search_transactions e self kw s) = [(''GET'', url_base @ ''/search/transactions'')]"
    and "issued s (search_customers e self kw s) = [(''GET'', url_base @ ''/search/customers'')]"
    and "issued s (list_global_coupons e self kw s) = [(''GET'', url_base @ ''/coupons/global'')]"
  using assms
  by (simp_all add: search_orders_def search_registrants_def search_transactions_def
      search_customers_def list_global_coupons_def issued_forward_get endpoint_simps)

lemma paths_by_field:
  "issued s (list_orders e self v s) = [(''GET'', url_base @ ''/search/orders'')]"
  "issued s (search_orders_number e self v s) = [(''GET'', url_base @ ''/search/orders'')]"
  "issued s (list_registrants e self v s) = [(''GET'', url_base @ ''/search/registrants'')]"
  "issued s (list_transactions e self v s) = [(''GET'', url_base @ ''/search/transactions'')]"
  "issued s (search_transactions_order_id e self v s) = [(''GET'', url_base @ ''/search/transactions'')]"
  "issued s (search_transactions_order_number e self v s) = [(''GET'', url_base @ ''/search/transactions'')]"
  "issued s (search_transactions_customer_id e self v s) = [(''GET'', url_base @ ''/search/transactions'')]"
  "issued s (list_customers e self v s) = [(''GET'', url_base @ ''/search/customers'')]"
  "issued s (search_customers_email e self v s) = [(''GET'', url_base @ ''/search/customers'')]"
  by (simp_all add: list_orders_def search_orders_number_def list_registrants_def
      list_transactions_def search_transactions_order_id_def
      search_transactions_order_number_def search_transactions_customer_id_def
      list_customers_def search_customers_email_def paths_search reserved_def)

lemma paths_by_id:
  "issued s (search_orders_id e self i s) = [(''GET'', url_base @ ''/search/orders/'' @ format_scalar i)]"
  "issued s (search_registrants_number e self i s) = [(''GET'', url_base @ ''/search/registrants/'' @ format_scalar i)]"
  "issued s (search_customers_id e self i s) = [(''GET'', url_base @ ''/search/customers/'' @ format_scalar i)]"
  "issued s (search_forms_id e self i s) = [(''GET'', url_base @ ''/forms/'' @ format_scalar i)]"
  "issued s (list_form_coupons e self i s) = [(''GET'', url_base @ ''/coupons/forms/'' @ format_scalar i)]"
  "issued s (search_coupons e self i s) = [(''GET'', url_base @ ''/coupons/'' @ format_scalar i)]"
  "issued s (search_inventory e self i s) = [(''GET'', url_base @ ''/forms/'' @ format_scalar i @ ''/inventory'')]"
  by (simp_all add: search_orders_id_def search_registrants_number_def search_customers_id_def
      search_forms_id_def list_form_coupons_def search_coupons_def search_inventory_def
      issued_lookup_get endpoint_simps)

lemma paths_registrant:
  "issued s (registrant_checkin e self (PInt n) reg_id s) = [(''POST'', url_base @ ''/registrant/check-in'')]"
  "issued s (registrant_checkout e self (PInt n) reg_id s) = [(''POST'', url_base @ ''/registrant/check-out'')]"
proof -
  show "issued s (registrant_checkin e self (PInt n) reg_id s) = [(''POST'', url_base @ ''/registrant/check-in'')]"
    by (simp add: registrant_checkin_def endpoint_simps issued_api_post)
  have "issued (s\<lparr>stderr := stderr s @ [checkout_warning]\<rparr>)
      (registrant_checkout e self (PInt n) reg_id s) = [(''POST'', url_base @ ''/registrant/check-out'')]"
    by (simp add: registrant_checkout_def endpoint_simps issued_api_post)
  then show "issued s (registrant_checkout e self (PInt n) reg_id s) = [(''POST'', url_base @ ''/registrant/check-out'')]"
    by (simp add: issued_def)
qed

section \<open>Check-in validates its argument\<close>

text \<open>
  C3. For every integer \<open>n\<close>, \<open>registrant_checkin(reg_number=n)\<close> issues one POST to
  \<open>/registrant/check-in\<close> under the base URL with the JSON body \<open>{"id": n}\<close>. For every
  value of \<open>reg_number\<close> that is not an integer (the default \<open>None\<close> among them) the
  call raises AssertionError and leaves the state as it was: no request has been sent.
\<close>

theorem registrant_checkin_validates:
  "sent (snd (registrant_checkin e self (PInt n) reg_id s)) =
     sent s @ [\<lparr>rq_method = ''POST'', rq_url = url_base @ ''/registrant/check-in'',
                rq_headers = headers s, rq_json = PDict [(''id'', PInt n)], rq_params = []\<rparr>]
   \<and> ((\<forall>k. v \<noteq> PInt k) \<longrightarrow>
        registrant_checkin e self v reg_id s = (Inl AssertionError, s))"
proof
  show "sent (snd (registrant_checkin e self (PInt n) reg_id s)) =
     sent s @ [\<lparr>rq_method = ''POST'', rq_url = url_base @ ''/registrant/check-in'',
                rq_headers = headers s, rq_json = PDict [(''id'', PInt n)], rq_params = []\<rparr>]"
    by (simp add: registrant_checkin_def endpoint_simps api_post_sent)
next
  show "(\<forall>k. v \<noteq> PInt k) \<longrightarrow> registrant_checkin e self v reg_id s = (Inl AssertionError, s)"
  proof
    assume "\<forall>k. v \<noteq> PInt k"
    then have "\<not> is_int v" by (cases v) simp_all
    then show "registrant_checkin e self v reg_id s = (Inl AssertionError, s)"
      by (simp add: registrant_checkin_def)
  qed
qed

theorem registrant_checkin_validates_witness:
  "(\<forall>k. PNone \<noteq> PInt k) \<and>
   registrant_checkin sample_env 0 PNone PNone client_state = (Inl AssertionError, client_state) \<and>
   sent (snd (registrant_checkin sample_env 0 (PInt 123) PNone client_state)) =
     [\<lparr>rq_method = ''POST'', rq_url = url_base @ ''/registrant/check-in'',
       rq_headers = [(''apiKey'', PStr ''k3y'')], rq_json = PDict [(''id'', PInt 123)],
       rq_params = []\<rparr>]"
  using registrant_checkin_validates [of sample_env 0 123 PNone client_state PNone]
  by (simp add: client_state_simps)

section \<open>The alternate identifier of check-in\<close>

text \<open>
  C8. For every integer \<open>reg_number\<close> and any two values of \<open>reg_id\<close>, the two calls of
  \<open>registrant_checkin\<close> have the same result and leave the same state, the log of
  requests included: the parameter \<open>reg_id\<close> has no effect.
\<close>

theorem registrant_checkin_ignores_reg_id:
  "registrant_checkin e self (PInt n) v1 s = registrant_checkin e self (PInt n) v2 s"
  by (simp add: registrant_checkin_def)

section \<open>Searching orders by order number\<close>

text \<open>
  C2. For every string \<open>X\<close>, \<open>search_orders(orderNumber=X)\<close> adds exactly one request to
  the log: a GET to the base URL followed by \<open>/search/orders\<close>, with the query parameter
  \<open>orderNumber = X\<close>, no JSON body and the headers of the class (which hold the API key).
  When the transport answers and the body is JSON, the call returns the parsed body.
\<close>

theorem search_orders_by_number:
  "sent (snd (search_orders e self [(''orderNumber'', PStr X)] s)) =
     sent s @ [\<lparr>rq_method = ''GET'', rq_url = url_base @ ''/search/orders'',
                rq_headers = headers s, rq_json = PNone,
                rq_params = [(''orderNumber'', PStr X)]\<rparr>]
   \<and> (\<forall>r j. requests_request e \<lparr>rq_method = ''GET'', rq_url = url_base @ ''/search/orders'',
                rq_headers = headers s, rq_json = PNone,
                rq_params = [(''orderNumber'', PStr X)]\<rparr> = Inr r \<longrightarrow>
            json_loads e (resp_text r) = Some j \<longrightarrow>
            fst (search_orders e self [(''orderNumber'', PStr X)] s) = Inr j)"
proof -
  have nc: "\<not> clash [''self'', ''method'', ''url''] [(''orderNumber'', PStr X)]"
    by simp
  have pl: "payload_of [(''orderNumber'', PStr X)] = PNone"
    by (simp add: payload_of_def)
  have del: "AList.delete ''payload'' [(''orderNumber'', PStr X)] = [(''orderNumber'', PStr X)]"
    by simp
  have eq: "search_orders e self [(''orderNumber'', PStr X)] s =
      api_get e self ''/search/orders'' [(''orderNumber'', PStr X)] s"
    by (simp add: search_orders_def forward_get_def endpoint_simps)
  show ?thesis
    using api_request_ok [of e "''GET''" "url_base @ ''/search/orders''" s PNone
        "[(''orderNumber'', PStr X)]" _ _ self]
    by (simp add: eq api_get_sent [OF nc] api_get_fst [OF nc] pl del)
qed

theorem search_orders_by_number_witness:
  "requests_request sample_env \<lparr>rq_method = ''GET'', rq_url = url_base @ ''/search/orders'',
       rq_headers = headers client_state, rq_json = PNone,
       rq_params = [(''orderNumber'', PStr ''EXAMPLEEVENT202J98059V'')]\<rparr>
     = Inr \<lparr>status_code = 200, resp_text = ok_text\<rparr>
   \<and> json_loads sample_env ok_text = Some ok_json
   \<and> fst (search_orders sample_env 0 [(''orderNumber'', PStr ''EXAMPLEEVENT202J98059V'')]
        client_state) = Inr ok_json"
proof -
  have h1: "requests_request sample_env \<lparr>rq_method = ''GET'', rq_url = url_base @ ''/search/orders'',
       rq_headers = headers client_state, rq_json = PNone,
       rq_params = [(''orderNumber'', PStr ''EXAMPLEEVENT202J98059V'')]\<rparr>
     = Inr \<lparr>status_code = 200, resp_text = ok_text\<rparr>"
    by (simp add: sample_env_def sample_service_def url_base_def)
  have h2: "json_loads sample_env ok_text = Some ok_json"
    by (simp add: sample_env_def sample_loads_def ok_text_def config_text_def conflict_text_def)
  from search_orders_by_number [of sample_env 0 "''EXAMPLEEVENT202J98059V''" client_state] h1 h2
  show ?thesis by simp
qed

section \<open>Check-out surfaces the answer of the service\<close>

text \<open>
  C4. For every integer \<open>n\<close>, \<open>registrant_checkout(reg_number=n)\<close> writes its warning to
  standard error, whatever the service does afterwards, and returns the parsed body of
  the answer to its POST as it is: in particular the conflict object that the service
  sends for a registrant who is already checked in.
\<close>

theorem registrant_checkout_conflict:
  "stderr (snd (registrant_checkout e self (PInt n) reg_id s)) = stderr s @ [checkout_warning]
   \<and> (\<forall>r j. requests_request e \<lparr>rq_method = ''POST'',
                 rq_url = url_base @ ''/registrant/check-out'', rq_headers = headers s,
                 rq_json = PDict [(''id'', PInt n)], rq_params = []\<rparr> = Inr r \<longrightarrow>
             json_loads e (resp_text r) = Some j \<longrightarrow>
             fst (registrant_checkout e self (PInt n) reg_id s) = Inr j)"
proof -
  have nc: "\<not> clash [''self'', ''method'', ''url'', ''payload''] []"
    by simp
  have eq: "registrant_checkout e self (PInt n) reg_id s =
      api_post e self ''/registrant/check-out'' (PDict [(''id'', PInt n)]) []
        (s\<lparr>stderr := stderr s @ [checkout_warning]\<rparr>)"
    by (simp add: registrant_checkout_def endpoint_simps)
  show ?thesis
    using api_request_ok [of e "''POST''" "url_base @ ''/registrant/check-out''"
        "s\<lparr>stderr := stderr s @ [checkout_warning]\<rparr>" "PDict [(''id'', PInt n)]" "[]" _ _ self]
    by (simp add: eq api_post_snd [OF nc] api_post_fst [OF nc] api_request_stderr)
qed

theorem registrant_checkout_conflict_witness:
  "requests_request sample_env \<lparr>rq_method = ''POST'',
       rq_url = url_base @ ''/registrant/check-out'', rq_headers = headers client_state,
       rq_json = PDict [(''id'', PInt 1230469)], rq_params = []\<rparr>
     = Inr \<lparr>status_code = 500, resp_text = conflict_text\<rparr>
   \<and> json_loads sample_env conflict_text = Some conflict_json
   \<and> fst (registrant_checkout sample_env 0 (PInt 1230469) PNone client_state) = Inr conflict_json
   \<and> stderr (snd (registrant_checkout sample_env 0 (PInt 1230469) PNone client_state))
       = [checkout_warning]"
proof -
  have h1: "requests_request sample_env \<lparr>rq_method = ''POST'',
       rq_url = url_base @ ''/registrant/check-out'', rq_headers = headers client_state,
       rq_json = PDict [(''id'', PInt 1230469)], rq_params = []\<rparr>
     = Inr \<lparr>status_code = 500, resp_text = conflict_text\<rparr>"
    by (simp add: sample_env_def sample_service_def)
  have h2: "json_loads sample_env conflict_text = Some conflict_json"
    by (simp add: sample_env_def sample_loads_simps)
  from registrant_checkout_conflict [of sample_env 0 1230469 PNone client_state] h1 h2
  show ?thesis by (simp add: client_state_simps)
qed

section \<open>The returned value and the recorded body\<close>



section \<open>Initialisation\<close>

text \<open>
  C5, as stated: initialisation fails with one error kind, ConfigError, whether the
  configuration file is missing, is not JSON or lacks the key. The code raises three
  different built-in exceptions in the three cases, and none of them is a ConfigError.
\<close>

theorem init_failure_counterexample:
  "fst (RegFoxAPI_init env_missing initial) = Inl FileNotFoundError \<and>
   fst (RegFoxAPI_init env_malformed initial) = Inl JSONDecodeError \<and>
   fst (RegFoxAPI_init env_nokey initial) = Inl (KeyError ''api_key'') \<and>
   fst (RegFoxAPI_init env_missing initial) \<noteq> fst (RegFoxAPI_init env_malformed initial) \<and>
   fst (RegFoxAPI_init env_malformed initial) \<noteq> fst (RegFoxAPI_init env_nokey initial)"
  by (simp add: init_fst env_missing_def env_malformed_def env_nokey_def sample_env_def
      sample_loads_simps default_api_path_def)

text \<open>
  C5, amended. Initialisation fails in each of these cases, with the exception of the
  failing statement: FileNotFoundError when the file is missing, JSONDecodeError when its
  content is not JSON, KeyError when the content is a JSON object without \<open>api_key\<close>,
  TypeError when the content is JSON but not an object. A failed initialisation leaves
  the headers as they were and sends nothing.
\<close>

theorem init_failure_kinds:
  "(read_file e default_api_path = None \<longrightarrow>
      fst (RegFoxAPI_init e s) = Inl FileNotFoundError)
   \<and> (read_file e default_api_path = Some t \<and> json_loads e t = None \<longrightarrow>
      fst (RegFoxAPI_init e s) = Inl JSONDecodeError)
   \<and> (read_file e default_api_path = Some t \<and> json_loads e t = Some (PDict d) \<and>
        map_of d ''api_key'' = None \<longrightarrow>
      fst (RegFoxAPI_init e s) = Inl (KeyError ''api_key''))
   \<and> (read_file e default_api_path = Some t \<and> json_loads e t = Some c \<and>
        (\<forall>d. c \<noteq> PDict d) \<longrightarrow>
      fst (RegFoxAPI_init e s) = Inl TypeError)
   \<and> ((\<forall>n. fst (RegFoxAPI_init e s) \<noteq> Inr n) \<longrightarrow>
      headers (snd (RegFoxAPI_init e s)) = headers s \<and> sent (snd (RegFoxAPI_init e s)) = sent s)"
proof -
  have ty: "(\<forall>d. c \<noteq> PDict d) \<Longrightarrow> getitem c ''api_key'' = Inl TypeError"
    by (cases c) simp_all
  have snt: "sent (snd (RegFoxAPI_init e s)) = sent s"
    by (simp add: RegFoxAPI_init_def load_api_def Let_def split: option.split sum.split)
  show ?thesis
    by (auto simp: init_fst init_headers ty snt split: option.splits sum.splits)
qed

theorem init_failure_kinds_witness:
  "read_file env_missing default_api_path = None \<and>
   fst (RegFoxAPI_init env_missing initial) = Inl FileNotFoundError \<and>
   headers (snd (RegFoxAPI_init env_missing initial)) = [(''apiKey'', PStr '''')] \<and>
   read_file env_malformed default_api_path = Some ''api_key = k3y'' \<and>
   json_loads env_malformed ''api_key = k3y'' = None \<and>
   fst (RegFoxAPI_init env_malformed initial) = Inl JSONDecodeError \<and>
   read_file env_nokey default_api_path = Some ''{}'' \<and>
   json_loads env_nokey ''{}'' = Some (PDict []) \<and>
   fst (RegFoxAPI_init env_nokey initial) = Inl (KeyError ''api_key'')"
proof -
  have m: "read_file env_missing default_api_path = None"
    by (simp add: env_missing_def)
  have b: "read_file env_malformed default_api_path = Some ''api_key = k3y'' \<and>
      json_loads env_malformed ''api_key = k3y'' = None"
    by (simp add: env_malformed_def sample_env_def sample_loads_simps)
  have k: "read_file env_nokey default_api_path = Some ''{}'' \<and>
      json_loads env_nokey ''{}'' = Some (PDict []) \<and> map_of [] ''api_key'' = (None :: pyval option)"
    by (simp add: env_nokey_def sample_env_def sample_loads_simps)
  from init_failure_kinds [where e = env_missing and s = initial] m
  have 1: "fst (RegFoxAPI_init env_missing initial) = Inl FileNotFoundError \<and>
     headers (snd (RegFoxAPI_init env_missing initial)) = [(''apiKey'', PStr '''')]"
    by (simp add: initial_def)
  from init_failure_kinds [where e = env_malformed and t = "''api_key = k3y''" and s = initial] b
  have 2: "fst (RegFoxAPI_init env_malformed initial) = Inl JSONDecodeError"
    by simp
  from init_failure_kinds [where e = env_nokey and t = "''{}''" and s = initial and d = "[]"] k
  have 3: "fst (RegFoxAPI_init env_nokey initial) = Inl (KeyError ''api_key'')"
    by simp
  from m b k 1 2 3 show ?thesis by simp
qed

text \<open>
  C6, as stated: the key that initialisation stored is sent as the header on every
  subsequent call. The header mapping belongs to the class: when a second client is
  created after the configuration file has been rewritten, the first client, created
  with the key \<open>k3y\<close>, sends the key \<open>other\<close> on its next call.
\<close>

theorem init_key_overwritten_counterexample:
  "fst (RegFoxAPI_init sample_env initial) = Inr 0 \<and>
   map_of (headers (snd (RegFoxAPI_init sample_env initial))) ''apiKey'' = Some (PStr ''k3y'') \<and>
   fst (RegFoxAPI_init env_other (snd (RegFoxAPI_init sample_env initial))) = Inr 1 \<and>
   map (\<lambda>rq. map_of (rq_headers rq) ''apiKey'')
     (sent (snd (ping env_other 0
        (snd (RegFoxAPI_init env_other (snd (RegFoxAPI_init sample_env initial)))))))
     = [Some (PStr ''other'')]"
  by (simp add: init_fst init_headers sample_env_def env_other_def default_api_path_def
      sample_loads_simps initial_def ping_def endpoint_simps api_get_sent
      RegFoxAPI_init_def load_api_def Let_def other_config_text_def)

text \<open>
  C6, amended. When the configuration file holds a JSON object with the field \<open>api_key\<close>,
  initialisation returns the new object and the header \<open>apiKey\<close> of the class holds
  the value of that field, unchanged. As long as the headers of the class are the ones
  this initialisation left (no client has been initialised since), a request issued
  through any object carries that value, and \<open>__api_request\<close>, \<open>api_get\<close> and \<open>api_post\<close>
  leave the headers as they are.
\<close>

theorem init_stores_key:
  "read_file e default_api_path = Some t \<Longrightarrow>
   json_loads e t = Some (PDict d) \<Longrightarrow>
   map_of d ''api_key'' = Some k \<Longrightarrow>
   fst (RegFoxAPI_init e s) = Inr (next_obj s) \<and>
   map_of (headers (snd (RegFoxAPI_init e s))) ''apiKey'' = Some k \<and>
   (\<forall>e' self m u ep pl kw s'.
      headers s' = headers (snd (RegFoxAPI_init e s)) \<longrightarrow>
      map_of (rq_headers (last (sent (snd (api_request e' self m u pl kw s'))))) ''apiKey'' = Some k \<and>
      headers (snd (api_request e' self m u pl kw s')) = headers s' \<and>
      headers (snd (api_get e' self ep kw s')) = headers s' \<and>
      headers (snd (api_post e' self ep pl kw s')) = headers s')"
  by (simp add: init_fst init_headers api_request_sent api_request_headers api_get_headers
      api_post_headers update_Some_unfold)

theorem init_stores_key_witness:
  "read_file sample_env default_api_path = Some config_text \<and>
   json_loads sample_env config_text = Some (PDict [(''api_key'', PStr ''k3y'')]) \<and>
   map_of [(''api_key'', PStr ''k3y'')] ''api_key'' = Some (PStr ''k3y'') \<and>
   fst (RegFoxAPI_init sample_env initial) = Inr 0 \<and>
   map_of (headers (snd (RegFoxAPI_init sample_env initial))) ''apiKey'' = Some (PStr ''k3y'') \<and>
   map_of (rq_headers (last (sent (snd (api_request env_offline 0 ''GET'' (url_base @ ''/ping'')
     PNone [] (snd (RegFoxAPI_init sample_env initial))))))) ''apiKey'' = Some (PStr ''k3y'')"
proof -
  have h1: "read_file sample_env default_api_path = Some config_text"
    by (simp add: sample_env_def default_api_path_def)
  have h2: "json_loads sample_env config_text = Some (PDict [(''api_key'', PStr ''k3y'')])"
    by (simp add: sample_env_def sample_loads_simps)
  have h3: "map_of [(''api_key'', PStr ''k3y'')] ''api_key'' = Some (PStr ''k3y'')"
    by simp
  from init_stores_key [OF h1 h2 h3, of initial] h1 h2 h3
  show ?thesis by (simp add: initial_def)
qed

section \<open>Outcomes of the generic request\<close>

text \<open>
  C7, as stated: the generic request returns the parsed JSON body, and fails with
  ResponseParseError or RequestError. In the code \<open>__api_request\<close> returns the raw
  response, a body that is not JSON raises the JSONDecodeError of \<open>json.loads\<close> (the
  exception a malformed configuration file raises too), and a transport failure raises
  the exception of the transport library.
\<close>

theorem generic_request_counterexample:
  "fst (api_request sample_env 0 ''GET'' (url_base @ ''/ping'') PNone [] client_state)
     = Inr \<lparr>status_code = 200, resp_text = ok_text\<rparr> \<and>
   fst (api_request env_html 0 ''GET'' (url_base @ ''/ping'') PNone [] client_state)
     = Inl JSONDecodeError \<and>
   fst (RegFoxAPI_init env_malformed initial) = Inl JSONDecodeError \<and>
   fst (api_request env_offline 0 ''GET'' (url_base @ ''/ping'') PNone [] client_state)
     = Inl (RequestException ConnectionError)"
  by (simp add: api_request_def Let_def sample_env_def env_html_def env_offline_def
      env_malformed_def sample_service_def sample_loads_simps RegFoxAPI_init_def load_api_def
      default_api_path_def)

text \<open>
  C7, amended. When the transport raises, \<open>__api_request\<close> raises that exception. When
  the transport answers with a body that is not JSON, it raises JSONDecodeError, after
  recording the raw response as \<open>last_request\<close>. Otherwise it returns the raw response
  and records the parsed body as \<open>last_request_json\<close>. \<open>api_get\<close> and \<open>api_post\<close> raise
  what \<open>__api_request\<close> raises and otherwise return the recorded parsed body.
\<close>

theorem generic_request_outcomes:
  "(\<forall>t. requests_request e \<lparr>rq_method = m, rq_url = u, rq_headers = headers s, rq_json = pl,
          rq_params = kw\<rparr> = Inl t \<longrightarrow>
        fst (api_request e self m u pl kw s) = Inl (RequestException t))
   \<and> (\<forall>r. requests_request e \<lparr>rq_method = m, rq_url = u, rq_headers = headers s, rq_json = pl,
          rq_params = kw\<rparr> = Inr r \<and> json_loads e (resp_text r) = None \<longrightarrow>
        fst (api_request e self m u pl kw s) = Inl JSONDecodeError \<and>
        get_last_request self (snd (api_request e self m u pl kw s)) = Some r)
   \<and> (\<forall>r j. requests_request e \<lparr>rq_method = m, rq_url = u, rq_headers = headers s, rq_json = pl,
          rq_params = kw\<rparr> = Inr r \<and> json_loads e (resp_text r) = Some j \<longrightarrow>
        fst (api_request e self m u pl kw s) = Inr r \<and>
        get_last_request_json self (snd (api_request e self m u pl kw s)) = j)
   \<and> (\<not> clash [''self'', ''method'', ''url''] kw \<longrightarrow>
        fst (api_get e self ep kw s) =
          (case fst (api_request e self ''GET'' (url_base @ ep) (payload_of kw)
                       (AList.delete ''payload'' kw) s) of
             Inl x \<Rightarrow> Inl x
           | Inr r \<Rightarrow> Inr (get_last_request_json self
               (snd (api_request e self ''GET'' (url_base @ ep) (payload_of kw)
                       (AList.delete ''payload'' kw) s)))))
   \<and> (\<not> clash [''self'', ''method'', ''url'', ''payload''] kw \<longrightarrow>
        fst (api_post e self ep pl kw s) =
          (case fst (api_request e self ''POST'' (url_base @ ep) pl kw s) of
             Inl x \<Rightarrow> Inl x
           | Inr r \<Rightarrow> Inr (get_last_request_json self
               (snd (api_request e self ''POST'' (url_base @ ep) pl kw s)))))"
  using api_request_fail [of e m u s pl kw _ self] api_request_bad [of e m u s pl kw _ self]
    api_request_ok [of e m u s pl kw _ _ self]
  by (simp add: api_get_fst api_post_fst)

theorem generic_request_outcomes_witness:
  "fst (api_request env_offline 0 ''GET'' (url_base @ ''/ping'') PNone [] client_state)
     = Inl (RequestException ConnectionError) \<and>
   fst (api_request env_html 0 ''GET'' (url_base @ ''/ping'') PNone [] client_state)
     = Inl JSONDecodeError \<and>
   get_last_request 0 (snd (api_request env_html 0 ''GET'' (url_base @ ''/ping'') PNone []
     client_state)) = Some \<lparr>status_code = 502, resp_text = ''<html>Bad Gateway</html>''\<rparr> \<and>
   fst (api_request sample_env 0 ''GET'' (url_base @ ''/ping'') PNone [] client_state)
     = Inr \<lparr>status_code = 200, resp_text = ok_text\<rparr> \<and>
   get_last_request_json 0 (snd (api_request sample_env 0 ''GET'' (url_base @ ''/ping'') PNone []
     client_state)) = ok_json \<and>
   fst (api_get sample_env 0 ''/ping'' [] client_state) = Inr ok_json \<and>
   fst (api_post sample_env 0 ''/ping'' PNone [] client_state) = Inr ok_json"
proof -
  have off: "requests_request env_offline \<lparr>rq_method = ''GET'', rq_url = url_base @ ''/ping'',
      rq_headers = headers client_state, rq_json = PNone, rq_params = []\<rparr> = Inl ConnectionError"
    by (simp add: env_offline_def)
  have html: "requests_request env_html \<lparr>rq_method = ''GET'', rq_url = url_base @ ''/ping'',
      rq_headers = headers client_state, rq_json = PNone, rq_params = []\<rparr>
      = Inr \<lparr>status_code = 502, resp_text = ''<html>Bad Gateway</html>''\<rparr> \<and>
    json_loads env_html ''<html>Bad Gateway</html>'' = None"
    by (simp add: env_html_def sample_env_def sample_loads_simps)
  have ok: "requests_request sample_env \<lparr>rq_method = ''GET'', rq_url = url_base @ ''/ping'',
      rq_headers = headers client_state, rq_json = PNone, rq_params = []\<rparr>
      = Inr \<lparr>status_code = 200, resp_text = ok_text\<rparr> \<and>
    json_loads sample_env ok_text = Some ok_json"
    by (simp add: sample_env_def sample_service_def sample_loads_simps)
  have okp: "requests_request sample_env \<lparr>rq_method = ''POST'', rq_url = url_base @ ''/ping'',
      rq_headers = headers client_state, rq_json = PNone, rq_params = []\<rparr>
      = Inr \<lparr>status_code = 200, resp_text = ok_text\<rparr>"
    by (simp add: sample_env_def sample_service_def)
  have nc: "\<not> clash [''self'', ''method'', ''url''] [] \<and>
      \<not> clash [''self'', ''method'', ''url'', ''payload''] [] \<and>
      payload_of [] = PNone \<and> AList.delete ''payload'' [] = ([] :: kwargs)"
    by (simp add: payload_of_def)
  from generic_request_outcomes [where e = env_offline and m = "''GET''"
      and u = "url_base @ ''/ping''" and s = client_state and pl = PNone and kw = "[]"
      and self = 0 and ep = "''/ping''"] off
  have 1: "fst (api_request env_offline 0 ''GET'' (url_base @ ''/ping'') PNone [] client_state)
     = Inl (RequestException ConnectionError)"
    by simp
  from generic_request_outcomes [where e = env_html and m = "''GET''"
      and u = "url_base @ ''/ping''" and s = client_state and pl = PNone and kw = "[]"
      and self = 0 and ep = "''/ping''"] html
  have 2: "fst (api_request env_html 0 ''GET'' (url_base @ ''/ping'') PNone [] client_state)
     = Inl JSONDecodeError \<and>
   get_last_request 0 (snd (api_request env_html 0 ''GET'' (url_base @ ''/ping'') PNone []
     client_state)) = Some \<lparr>status_code = 502, resp_text = ''<html>Bad Gateway</html>''\<rparr>"
    by simp
  from generic_request_outcomes [where e = sample_env and m = "''GET''"
      and u = "url_base @ ''/ping''" and s = client_state and pl = PNone and kw = "[]"
      and self = 0 and ep = "''/ping''"] ok nc
  have 3: "fst (api_request sample_env 0 ''GET'' (url_base @ ''/ping'') PNone [] client_state)
     = Inr \<lparr>status_code = 200, resp_text = ok_text\<rparr> \<and>
   get_last_request_json 0 (snd (api_request sample_env 0 ''GET'' (url_base @ ''/ping'') PNone []
     client_state)) = ok_json \<and>
   fst (api_get sample_env 0 ''/ping'' [] client_state) = Inr ok_json"
    by simp
  from generic_request_outcomes [where e = sample_env and m = "''POST''"
      and u = "url_base @ ''/ping''" and s = client_state and pl = PNone and kw = "[]"
      and self = 0 and ep = "''/ping''"] okp ok nc
  have 4: "fst (api_post sample_env 0 ''/ping'' PNone [] client_state) = Inr ok_json"
    by simp
  from 1 2 3 4 show ?thesis by simp
qed

section \<open>Class attributes and instance attributes\<close>

text \<open>
  C9, as stated: a call made through one client overwrites the last-response state that
  another client observes. It does not: \<open>self.last_request = r\<close> and
  \<open>self.last_request_json = ...\<close> create attributes of the instance. After a call through
  client 0, client 1 still reads the defaults of the class, or what its own last call
  recorded.
\<close>

theorem shared_last_response_counterexample:
  "fst (ping sample_env 0 two_clients) = Inr ok_json \<and>
   get_last_request_json 0 (snd (ping sample_env 0 two_clients)) = ok_json \<and>
   get_last_request_json 1 (snd (ping sample_env 0 two_clients)) = PDict [] \<and>
   get_last_request 1 (snd (ping sample_env 0 two_clients)) = None \<and>
   get_last_request_json 1
     (snd (ping sample_env 0
        (snd (registrant_checkout sample_env 1 (PInt 1230469) PNone two_clients))))
     = conflict_json"
  by (simp add: ping_def registrant_checkout_def endpoint_simps api_get_def api_post_def
      api_request_def Let_def
      sample_env_def sample_service_def sample_loads_simps payload_of_def two_clients_simps
      get_last_request_json_def get_last_request_def set_last_request_def
      set_last_request_json_def new_instance_def)

text \<open>
  C9, amended. The header mapping is an attribute of the class, mutated in place: after
  a client has been created from a configuration holding the key \<open>k\<close>, a request through
  any client carries \<open>k\<close>, whatever key was stored before. The last response and the last
  parsed body are attributes of each instance: a call through client \<open>a\<close> leaves what
  another client \<open>b\<close> reads as its last response and last parsed body unchanged.
\<close>

theorem headers_shared_last_response_own:
  "(read_file e default_api_path = Some t \<and> json_loads e t = Some (PDict d) \<and>
      map_of d ''api_key'' = Some k \<longrightarrow>
      map_of (rq_headers (last (sent (snd (api_request e' a m u pl kw
        (snd (RegFoxAPI_init e s))))))) ''apiKey'' = Some k)
   \<and> (a \<noteq> b \<longrightarrow>
        get_last_request_json b (snd (api_get e a ep kw s)) = get_last_request_json b s \<and>
        get_last_request b (snd (api_get e a ep kw s)) = get_last_request b s \<and>
        get_last_request_json b (snd (api_post e a ep pl kw s)) = get_last_request_json b s \<and>
        get_last_request b (snd (api_post e a ep pl kw s)) = get_last_request b s)"
  by (simp add: api_request_sent init_headers update_Some_unfold
      get_last_request_json_def get_last_request_def api_get_other_obj api_post_other_obj
      api_get_class_attrs api_post_class_attrs split: option.split)

theorem headers_shared_last_response_own_witness:
  "read_file sample_env default_api_path = Some config_text \<and>
   json_loads sample_env config_text = Some (PDict [(''api_key'', PStr ''k3y'')]) \<and>
   map_of (rq_headers (last (sent (snd (api_request sample_env 0 ''GET'' (url_base @ ''/ping'')
     PNone [] (snd (RegFoxAPI_init sample_env (initial\<lparr>headers := [(''apiKey'', PStr ''old'')]\<rparr>)))))))) ''apiKey''
     = Some (PStr ''k3y'') \<and>
   (0::nat) \<noteq> 1 \<and>
   get_last_request_json 1 (snd (api_get sample_env 0 ''/ping'' [] two_clients)) = PDict [] \<and>
   get_last_request 1 (snd (api_get sample_env 0 ''/ping'' [] two_clients)) = None"
proof -
  have h: "read_file sample_env default_api_path = Some config_text \<and>
      json_loads sample_env config_text = Some (PDict [(''api_key'', PStr ''k3y'')]) \<and>
      map_of [(''api_key'', PStr ''k3y'')] ''api_key'' = Some (PStr ''k3y'')"
    by (simp add: sample_env_def default_api_path_def sample_loads_simps)
  have b: "get_last_request_json 1 two_clients = PDict [] \<and> get_last_request 1 two_clients = None"
    by (simp add: get_last_request_json_def get_last_request_def two_clients_simps new_instance_def)
  from headers_shared_last_response_own [where e = sample_env and t = config_text
      and d = "[(''api_key'', PStr ''k3y'')]" and k = "PStr ''k3y''" and e' = sample_env
      and a = 0 and b = 1 and m = "''GET''" and u = "url_base @ ''/ping''" and pl = PNone
      and kw = "[]" and s = "initial\<lparr>headers := [(''apiKey'', PStr ''old'')]\<rparr>"
      and ep = "''/ping''"]
    headers_shared_last_response_own [where e = sample_env and t = config_text
      and d = "[(''api_key'', PStr ''k3y'')]" and k = "PStr ''k3y''" and e' = sample_env
      and a = 0 and b = 1 and m = "''GET''" and u = "url_base @ ''/ping''" and pl = PNone
      and kw = "[]" and s = two_clients and ep = "''/ping''"]
    h b
  show ?thesis by simp
qed


section \<open>The paths of the named methods\<close>

text \<open>
  C1, as stated: \<open>search_coupons\<close> issues its request against \<open>/coupons\<close> and
  \<open>list_form_coupons\<close> against \<open>/coupons/forms\<close>, and every named method uses a path of
  the catalog. Both methods take an identifier and append it, and \<open>search_tickets\<close> uses
  a path that the catalog does not list.
\<close>

theorem named_method_paths_counterexample:
  "issued client_state (search_coupons sample_env 0 (SInt 946158) client_state)
     = [(''GET'', ''https://api.webconnex.com/v2/public/coupons/946158'')] \<and>
   issued client_state (search_coupons sample_env 0 (SInt 946158) client_state)
     \<noteq> [(''GET'', url_base @ ''/coupons'')] \<and>
   issued client_state (list_form_coupons sample_env 0 (SInt 123410) client_state)
     \<noteq> [(''GET'', url_base @ ''/coupons/forms'')] \<and>
   issued client_state (search_tickets sample_env 0 client_state)
     = [(''GET'', ''https://api.webconnex.com/v2/public/search/tickets'')] \<and>
   ''/search/tickets'' \<notin> set (map snd endpoints)"
  by (simp add: paths_by_id paths_plain url_base_def str_int_def endpoints_def)


text \<open>
  C1, amended. Each named method issues exactly one request, to the base URL followed by:
  \<open>/ping\<close> for ping; \<open>/search/orders\<close>, \<open>/search/registrants\<close>, \<open>/search/transactions\<close>,
  \<open>/search/customers\<close> for the search and list methods of orders, registrants,
  transactions and customers (keyword arguments must not be named self, endpoint, method
  or url); \<open>/coupons/global\<close> for list_global_coupons; \<open>/forms\<close> for list_forms; a POST to
  \<open>/registrant/check-in\<close> and \<open>/registrant/check-out\<close> for an integer registrant number;
  the base path followed by \<open>/{id}\<close> for search_orders_id, search_registrants_number,
  search_customers_id, search_forms_id, list_form_coupons (\<open>/coupons/forms/{id}\<close>) and
  search_coupons (\<open>/coupons/{id}\<close>); \<open>/forms/{id}/inventory\<close> for search_inventory; and
  the paths \<open>/search/tickets\<close>, \<open>/search/subscriptions\<close>, \<open>/search/memberships\<close>, which
  are not in the catalog, for the three methods of those names.
\<close>

theorem named_method_paths:
  "\<not> clash reserved kw \<Longrightarrow>
   issued s (ping e self s) = [(''GET'', url_base @ ''/ping'')] \<and>
   issued s (list_orders e self v s) = [(''GET'', url_base @ ''/search/orders'')] \<and>
   issued s (search_orders e self kw s) = [(''GET'', url_base @ ''/search/orders'')] \<and>
   issued s (search_orders_id e self i s)
     = [(''GET'', url_base @ ''/search/orders/'' @ format_scalar i)] \<and>
   issued s (search_orders_number e self v s) = [(''GET'', url_base @ ''/search/orders'')] \<and>
   issued s (list_registrants e self v s) = [(''GET'', url_base @ ''/search/registrants'')] \<and>
   issued s (search_registrants e self kw s) = [(''GET'', url_base @ ''/search/registrants'')] \<and>
   issued s (search_registrants_number e self i s)
     = [(''GET'', url_base @ ''/search/registrants/'' @ format_scalar i)] \<and>
   issued s (registrant_checkin e self (PInt n) reg_id s)
     = [(''POST'', url_base @ ''/registrant/check-in'')] \<and>
   issued s (registrant_checkout e self (PInt n) reg_id s)
     = [(''POST'', url_base @ ''/registrant/check-out'')] \<and>
   issued s (list_transactions e self v s) = [(''GET'', url_base @ ''/search/transactions'')] \<and>
   issued s (search_transactions e self kw s)
     = [(''GET'', url_base @ ''/search/transactions'')] \<and>
   issued s (search_transactions_order_id e self v s)
     = [(''GET'', url_base @ ''/search/transactions'')] \<and>
   issued s (search_transactions_order_number e self v s)
     = [(''GET'', url_base @ ''/search/transactions'')] \<and>
   issued s (search_transactions_customer_id e self v s)
     = [(''GET'', url_base @ ''/search/transactions'')] \<and>
   issued s (list_customers e self v s) = [(''GET'', url_base @ ''/search/customers'')] \<and>
   issued s (search_customers e self kw s) = [(''GET'', url_base @ ''/search/customers'')] \<and>
   issued s (search_customers_id e self i s)
     = [(''GET'', url_base @ ''/search/customers/'' @ format_scalar i)] \<and>
   issued s (search_customers_email e self v s) = [(''GET'', url_base @ ''/search/customers'')] \<and>
   issued s (list_forms e self s) = [(''GET'', url_base @ ''/forms'')] \<and>
   issued s (search_forms_id e self i s) = [(''GET'', url_base @ ''/forms/'' @ format_scalar i)] \<and>
   issued s (list_global_coupons e self kw s) = [(''GET'', url_base @ ''/coupons/global'')] \<and>
   issued s (list_form_coupons e self i s)
     = [(''GET'', url_base @ ''/coupons/forms/'' @ format_scalar i)] \<and>
   issued s (search_coupons e self i s) = [(''GET'', url_base @ ''/coupons/'' @ format_scalar i)] \<and>
   issued s (search_inventory e self i s)
     = [(''GET'', url_base @ ''/forms/'' @ format_scalar i @ ''/inventory'')] \<and>
   issued s (search_tickets e self s) = [(''GET'', url_base @ ''/search/tickets'')] \<and>
   issued s (search_subscriptions e self s) = [(''GET'', url_base @ ''/search/subscriptions'')] \<and>
   issued s (search_memberships e self s) = [(''GET'', url_base @ ''/search/memberships'')]"
  by (simp add: paths_plain paths_search paths_by_field paths_by_id paths_registrant)

theorem named_method_paths_witness:
  "\<not> clash reserved [(''status'', PStr ''canceled'')] \<and>
   issued client_state (search_orders sample_env 0 [(''status'', PStr ''canceled'')] client_state)
     = [(''GET'', ''https://api.webconnex.com/v2/public/search/orders'')] \<and>
   issued client_state (search_inventory sample_env 0 (SInt 123410) client_state)
     = [(''GET'', ''https://api.webconnex.com/v2/public/forms/123410/inventory'')] \<and>
   issued client_state (registrant_checkin sample_env 0 (PInt 1230469) PNone client_state)
     = [(''POST'', ''https://api.webconnex.com/v2/public/registrant/check-in'')]"
proof -
  have h: "\<not> clash reserved [(''status'', PStr ''canceled'')]"
    by (simp add: reserved_def)
  from named_method_paths [OF h, where s = client_state and e = sample_env and self = 0
      and i = "SInt 123410" and n = 1230469 and reg_id = PNone] h
  show ?thesis by (simp add: url_base_def str_int_def)
qed

end
